theory Spec2Isabelle
  imports Main "HOL-Library.Word"
begin

section \<open>User registration: the service and its router\<close>

text \<open>
  The development follows the user service (\<^verbatim>\<open>generateToken\<close>, \<^verbatim>\<open>save\<close>,
  \<^verbatim>\<open>findByEmail\<close>) and the router of \<^verbatim>\<open>POST /api/1.0/users\<close> with its three
  validation chains and its handler, both in \<^verbatim>\<open>src/Project/src/user/UserService.js\<close>.
  The libraries the program calls (express-validator and validator.js, bcrypt, the crypto
  module) are modelled by what they compute for the calls the program makes.

  A JavaScript string is a sequence of code units. The model writes it as a \<^typ>\<open>string\<close>,
  so it covers the strings whose code units are below 256; there a code unit is a character,
  no surrogate pair or variation selector occurs, and the only line terminators are
  line feed and carriage return. A value that may be \<^verbatim>\<open>null\<close> or missing is a
  \<^typ>\<open>string option\<close>.
\<close>

subsection \<open>The collaborators outside the program\<close>

text \<open>What the program and its libraries throw.\<close>

datatype exception =
    IllegalArguments \<comment> \<open>\<^verbatim>\<open>bcrypt.hash\<close> without data\<close>
  | RangeError \<comment> \<open>\<^verbatim>\<open>crypto.randomBytes\<close> with a size out of range\<close>
  | StringTooLong \<comment> \<open>a string longer than the engine can hold\<close>
  | UniqueConstraintError
  | DatabaseError
  | MailError

text \<open>
  The digests of bcrypt. What \<^verbatim>\<open>bcrypt.hash(data, rounds)\<close> resolves to is the work of
  the library: a salted digest in the library's own format. The model takes one thing from
  the library and proves nothing of it: a digest is never the data it was made from. A
  hasher is any function from data and rounds to a digest that keeps to this.
\<close>

typedef hasher = "{h :: string \<Rightarrow> nat \<Rightarrow> string. \<forall>data rounds. h data rounds \<noteq> data}"
  by (rule exI [of _ "\<lambda>data rounds. CHR ''$'' # data"]) simp

setup_lifting type_definition_hasher

text \<open>
  What the libraries and services answer during one request is not decided by the program,
  so it is a parameter of every operation:
  \<^item> \<open>bcrypt\<close>: the hasher behind \<^verbatim>\<open>bcrypt.hash\<close>;
  \<^item> \<open>entropy\<close>: the bytes \<^verbatim>\<open>crypto.randomBytes\<close> draws, in order;
  \<^item> \<open>store_down\<close>: the store rejects an operation for a reason of its own (connection
    lost, disk full);
  \<^item> \<open>mail_down\<close>: the activation mail cannot be dispatched.
\<close>

type_synonym byte = "8 word"

record env =
  bcrypt :: hasher
  entropy :: "nat \<Rightarrow> byte"
  store_down :: bool
  mail_down :: bool

text \<open>The digest \<^verbatim>\<open>bcrypt.hash(data, rounds)\<close> resolves to.\<close>

definition bcrypt_digest :: "env \<Rightarrow> string \<Rightarrow> nat \<Rightarrow> string" where
  "bcrypt_digest e = Rep_hasher (bcrypt e)"

subsection \<open>Token generation\<close>

text \<open>
  \<^verbatim>\<open>crypto.randomBytes(n)\<close>: a buffer of \<open>n\<close> bytes, the next \<open>n\<close> the environment
  draws. The function throws a \<^verbatim>\<open>RangeError\<close> for a size above \<open>2\<^sup>3\<^sup>1 - 1\<close>. A length
  is a natural number: the source is called with whole numbers only.
\<close>

definition bytes :: "env \<Rightarrow> nat \<Rightarrow> byte list" where
  "bytes e n = map (entropy e) [0..<n]"

definition randomBytes :: "env \<Rightarrow> nat \<Rightarrow> exception + byte list" where
  "randomBytes e n = (if 2147483647 < n then Inl RangeError else Inr (bytes e n))"

definition hex_digits :: string where
  "hex_digits = ''0123456789abcdef''"

text \<open>
  \<^verbatim>\<open>buf.toString('hex')\<close>: two lower-case digits for each byte, the high half first. The
  engine holds no string longer than \<^verbatim>\<open>buffer.constants.MAX_STRING_LENGTH\<close>, which is
  \<open>2\<^sup>2\<^sup>9 - 24\<close> characters on a 64-bit platform; a longer result is an error.
\<close>

definition hex :: "byte list \<Rightarrow> string" where
  "hex buf =
     concat (map (\<lambda>b. [hex_digits ! (unat b div 16), hex_digits ! (unat b mod 16)]) buf)"

definition MAX_STRING_LENGTH :: nat where
  "MAX_STRING_LENGTH = 536870888"

definition toString_hex :: "byte list \<Rightarrow> exception + string" where
  "toString_hex buf =
     (if MAX_STRING_LENGTH < 2 * length buf then Inl StringTooLong else Inr (hex buf))"

text \<open>
  \<^verbatim>\<open>str.substring(start, end)\<close>: both indices are clamped to the length of the string and
  swapped when they come in the wrong order.
\<close>

definition substring :: "string \<Rightarrow> nat \<Rightarrow> nat \<Rightarrow> string" where
  "substring s start end' =
     (let i = min start (length s); j = min end' (length s)
      in take (max i j - min i j) (drop (min i j) s))"

text \<open>
  \<^verbatim>\<open>const generateToken = (length) =>
    crypto.randomBytes(length).toString('hex').substring(0, length)\<close>
\<close>

definition generateToken :: "env \<Rightarrow> nat \<Rightarrow> exception + string" where
  "generateToken e len =
     (case randomBytes e len of
        Inl err \<Rightarrow> Inl err
      | Inr buf \<Rightarrow>
          (case toString_hex buf of
             Inl err \<Rightarrow> Inl err
           | Inr str \<Rightarrow> Inr (substring str 0 len)))"

subsection \<open>Characters and regular expressions\<close>

definition between :: "nat \<Rightarrow> nat \<Rightarrow> char \<Rightarrow> bool" where
  "between lo hi c = (lo \<le> of_char c \<and> of_char c \<le> hi)"

definition upper :: "char \<Rightarrow> bool" where \<comment> \<open>\<^verbatim>\<open>[A-Z]\<close>\<close>
  "upper c = between 0x41 0x5A c"

definition lower :: "char \<Rightarrow> bool" where \<comment> \<open>\<^verbatim>\<open>[a-z]\<close>\<close>
  "lower c = between 0x61 0x7A c"

definition digit :: "char \<Rightarrow> bool" where \<comment> \<open>\<^verbatim>\<open>\d\<close>\<close>
  "digit c = between 0x30 0x39 c"

definition dot :: "char \<Rightarrow> bool" where \<comment> \<open>\<^verbatim>\<open>.\<close>: any character but a line terminator\<close>
  "dot c = (c \<noteq> CHR 0x0A \<and> c \<noteq> CHR 0x0D)"

definition space :: "char \<Rightarrow> bool" where \<comment> \<open>\<^verbatim>\<open>\s\<close>\<close>
  "space c = (between 0x09 0x0D c \<or> c = CHR 0x20 \<or> c = CHR 0xA0)"

text \<open>
  The regular expressions of the program need little: the two anchors, a character class,
  a starred character class and a lookahead. A pattern is a list of these, read as their
  sequence.
\<close>

datatype regex =
    Bol \<comment> \<open>\<^verbatim>\<open>^\<close>\<close>
  | Eol \<comment> \<open>\<^verbatim>\<open>$\<close>\<close>
  | Class "char \<Rightarrow> bool" \<comment> \<open>\<^verbatim>\<open>[...]\<close>\<close>
  | Star "char \<Rightarrow> bool" \<comment> \<open>\<^verbatim>\<open>[...]*\<close>\<close>
  | Lookahead "regex list" \<comment> \<open>\<^verbatim>\<open>(?=...)\<close>\<close>

text \<open>
  \<open>match_here b re s\<close>: the pattern matches a prefix of \<open>s\<close>, where \<open>b\<close> says that
  \<open>s\<close> begins at the start of the input. Without the \<^verbatim>\<open>m\<close> flag \<^verbatim>\<open>^\<close> matches at
  the start of the input only and \<^verbatim>\<open>$\<close> at its end only.
\<close>

fun match_here :: "bool \<Rightarrow> regex list \<Rightarrow> string \<Rightarrow> bool" where
  "match_here b [] s = True"
| "match_here b (Bol # rs) s = (b \<and> match_here b rs s)"
| "match_here b (Eol # rs) s = (s = [] \<and> match_here b rs s)"
| "match_here b (Class p # rs) [] = False"
| "match_here b (Class p # rs) (c # cs) = (p c \<and> match_here False rs cs)"
| "match_here b (Star p # rs) [] = match_here b rs []"
| "match_here b (Star p # rs) (c # cs) =
     ((p c \<and> match_here False (Star p # rs) cs) \<or> match_here b rs (c # cs))"
| "match_here b (Lookahead as # rs) s = (match_here b as s \<and> match_here b rs s)"

fun search :: "bool \<Rightarrow> regex list \<Rightarrow> string \<Rightarrow> bool" where
  "search b re [] = match_here b re []"
| "search b re (c # cs) = (match_here b re (c # cs) \<or> search False re cs)"

text \<open>\<^verbatim>\<open>re.test(str)\<close>, and \<^verbatim>\<open>str.match(re)\<close> read as a truth value.\<close>

definition test :: "regex list \<Rightarrow> string \<Rightarrow> bool" where
  "test re s = search True re s"

text \<open>\<^verbatim>\<open>str.split(sep)\<close> and \<^verbatim>\<open>parts.join(sep)\<close> for a separator of one character.\<close>

fun split :: "char \<Rightarrow> string \<Rightarrow> string list" where
  "split sep [] = [[]]"
| "split sep (c # cs) =
     (if c = sep then [] # split sep cs
      else (case split sep cs of [] \<Rightarrow> [[c]] | p # ps \<Rightarrow> (c # p) # ps))"

fun join :: "char \<Rightarrow> string list \<Rightarrow> string" where
  "join sep [] = []"
| "join sep [p] = p"
| "join sep (p # q # ps) = p @ sep # join sep (q # ps)"

subsection \<open>The validators of validator.js\<close>

text \<open>
  The validation chains of the router name their rules; express-validator takes each rule
  from the library validator.js. The functions below are that library's, with the options
  the router passes and the library's defaults where it passes none.
\<close>

definition isEmpty :: "string \<Rightarrow> bool" where
  "isEmpty str = (length str = 0)"

text \<open>
  \<^verbatim>\<open>isLength(str, {min, max})\<close>. The library counts a surrogate pair once and a variation
  selector not at all; neither occurs among the strings of the model, so the count is the
  length.
\<close>

definition isLength :: "nat \<Rightarrow> nat option \<Rightarrow> string \<Rightarrow> bool" where
  "isLength min' max' str =
     (let len = length str
      in min' \<le> len \<and> (case max' of None \<Rightarrow> True | Some m \<Rightarrow> len \<le> m))"

definition matches :: "regex list \<Rightarrow> string \<Rightarrow> bool" where
  "matches pattern str = test pattern str"

text \<open>\<^verbatim>\<open>isByteLength(str, {max})\<close> counts the bytes of the UTF-8 encoding.\<close>

definition byte_length :: "string \<Rightarrow> nat" where
  "byte_length str = sum_list (map (\<lambda>c. if of_char c < (0x80 :: nat) then 1 else 2) str)"

definition isByteLength :: "nat \<Rightarrow> string \<Rightarrow> bool" where
  "isByteLength max' str = (byte_length str \<le> max')"

definition letter :: "char \<Rightarrow> bool" where \<comment> \<open>\<^verbatim>\<open>[a-z]\<close> under the flag \<^verbatim>\<open>i\<close>\<close>
  "letter c = (lower c \<or> upper c)"

definition tld_char :: "char \<Rightarrow> bool" where
  "tld_char c = (letter c \<or> between 0xA1 0xA8 c \<or> between 0xAA 0xFF c)"

definition xn_char :: "char \<Rightarrow> bool" where
  "xn_char c = (letter c \<or> digit c \<or> c = CHR ''-'')"

definition label_char :: "char \<Rightarrow> bool" where
  "label_char c = (letter c \<or> c = CHR ''_'' \<or> between 0xA1 0xFF c \<or> digit c \<or> c = CHR ''-'')"

definition is_char :: "char \<Rightarrow> char \<Rightarrow> bool" where
  "is_char a c = (c = a)"

text \<open>
  \<^verbatim>\<open>isFQDN(domain)\<close> as \<^verbatim>\<open>isEmail\<close> calls it: a top-level domain is required, it is
  not numeric, no label is longer than 63 characters, starts or ends with a hyphen or has
  an underscore.
\<close>

definition isFQDN :: "string \<Rightarrow> bool" where
  "isFQDN str =
     (let parts = split CHR ''.'' str; tld = last parts in
      if length parts < 2 then False
      else if \<not> (test [Bol, Class tld_char, Class tld_char, Star tld_char, Eol] tld \<or>
                 test [Bol, Class (\<lambda>c. c = CHR ''x'' \<or> c = CHR ''X''),
                       Class (\<lambda>c. c = CHR ''n'' \<or> c = CHR ''N''),
                       Class xn_char, Class xn_char, Star xn_char, Eol] tld)
      then False
      else if test [Class space] tld then False
      else if test [Bol, Class digit, Star digit, Eol] tld then False
      else list_all (\<lambda>part.
             \<not> 63 < length part \<and>
             test [Bol, Class label_char, Star label_char, Eol] part \<and>
             \<not> (test [Bol, Class (is_char CHR ''-'')] part \<or>
                test [Class (is_char CHR ''-''), Eol] part) \<and>
             \<not> test [Class (is_char CHR ''_'')] part) parts)"

text \<open>The characters of an unquoted local part, and of a quoted one.\<close>

definition atext :: "char \<Rightarrow> bool" where
  "atext c = (letter c \<or> digit c \<or> c \<in> set ''!#$%&*+-/=?^_{|}~'' \<or> c = CHR 0x27 \<or>
     c = CHR 0x60 \<or> between 0xA1 0xFF c)"

definition qtext :: "char \<Rightarrow> bool" where
  "qtext c = (space c \<or> between 0x01 0x08 c \<or> c = CHR 0x0B \<or> c = CHR 0x0C \<or>
     between 0x0E 0x1F c \<or> c = CHR 0x7F \<or> c = CHR 0x21 \<or> between 0x23 0x5B c \<or>
     between 0x5D 0x7E c \<or> between 0xA0 0xFF c)"

definition quoted_pair :: "char \<Rightarrow> bool" where
  "quoted_pair c = (between 0x01 0x09 c \<or> c = CHR 0x0B \<or> c = CHR 0x0C \<or>
     between 0x0D 0x7F c \<or> between 0xA0 0xFF c)"

text \<open>
  The pattern of a quoted local part, a starred choice between one \<open>qtext\<close> character
  and a backslash followed by one \<open>quoted_pair\<close> character, anchored at both ends: a backslash is no
  \<open>qtext\<close>, so the two alternatives never compete.
\<close>

fun quotedEmailUser :: "string \<Rightarrow> bool" where
  "quotedEmailUser [] = True"
| "quotedEmailUser [c] = qtext c"
| "quotedEmailUser (c # d # cs) =
     (if qtext c then quotedEmailUser (d # cs)
      else c = CHR 0x5C \<and> quoted_pair d \<and> quotedEmailUser cs)"

text \<open>
  \<^verbatim>\<open>isEmail(str)\<close> with the default options: at most 254 characters; the domain is what
  follows the last \<^verbatim>\<open>@\<close> (the whole string when there is none) and must be a
  fully qualified domain name; the local part is what precedes it, at most 64 bytes, either
  quoted or a sequence of non-empty dot-separated parts.
\<close>

definition isEmail :: "string \<Rightarrow> bool" where
  "isEmail str =
     (if 254 < length str then False
      else
        let parts = split CHR ''@'' str;
            domain = last parts;
            user = join CHR ''@'' (butlast parts)
        in
          if \<not> isByteLength 64 user \<or> \<not> isByteLength 254 domain then False
          else if \<not> isFQDN domain then False
          else if (case user of [] \<Rightarrow> False | c # _ \<Rightarrow> c = CHR 0x22)
          then quotedEmailUser (butlast (tl user))
          else list_all (test [Bol, Class atext, Star atext, Eol]) (split CHR ''.'' user))"

subsection \<open>Validation chains of express-validator\<close>

text \<open>
  A chain is built by \<^verbatim>\<open>check(field)\<close> and the calls that follow it. Each rule is pushed
  on the chain's stack with the default message; \<^verbatim>\<open>withMessage\<close> sets the message of
  the rule pushed last; \<^verbatim>\<open>not()\<close> negates the rule pushed next; \<^verbatim>\<open>bail()\<close> pushes
  a stop.
\<close>

datatype context_item =
    Validation bool "string \<Rightarrow> bool" string \<comment> \<open>negated, the validator, its message\<close>
  | Bail

record chain =
  field :: string
  stack :: "context_item list"
  negateNext :: bool

definition check :: "string \<Rightarrow> chain" where
  "check f = \<lparr>field = f, stack = [], negateNext = False\<rparr>"

definition not' :: "chain \<Rightarrow> chain" where
  "not' c = c\<lparr>negateNext := True\<rparr>"

definition addItem :: "(string \<Rightarrow> bool) \<Rightarrow> chain \<Rightarrow> chain" where
  "addItem validator c =
     c\<lparr>stack := stack c @ [Validation (negateNext c) validator ''Invalid value''],
       negateNext := False\<rparr>"

definition notEmpty :: "chain \<Rightarrow> chain" where
  "notEmpty c = addItem isEmpty (not' c)"

definition isLength' :: "nat \<Rightarrow> nat option \<Rightarrow> chain \<Rightarrow> chain" where
  "isLength' min' max' c = addItem (isLength min' max') c"

definition isEmail' :: "chain \<Rightarrow> chain" where
  "isEmail' c = addItem isEmail c"

definition matches' :: "regex list \<Rightarrow> chain \<Rightarrow> chain" where
  "matches' pattern c = addItem (matches pattern) c"

fun setMessage :: "string \<Rightarrow> context_item \<Rightarrow> context_item" where
  "setMessage m (Validation neg validator _) = Validation neg validator m"
| "setMessage m Bail = Bail"

definition withMessage :: "string \<Rightarrow> chain \<Rightarrow> chain" where
  "withMessage m c =
     (case stack c of [] \<Rightarrow> c
      | _ # _ \<Rightarrow> c\<lparr>stack := butlast (stack c) @ [setMessage m (last (stack c))]\<rparr>)"

definition bail :: "chain \<Rightarrow> chain" where
  "bail c = c\<lparr>stack := stack c @ [Bail]\<rparr>"

text \<open>The calls of a chain in the order the source writes them.\<close>

definition calls :: "chain \<Rightarrow> (chain \<Rightarrow> chain) list \<Rightarrow> chain" where
  "calls c fs = fold (\<lambda>f c. f c) fs c"

text \<open>
  Running a chain on a value. The value is turned into a string first, \<^verbatim>\<open>null\<close> and a
  missing field into the empty string. The items run in order; a rule that the value does
  not satisfy adds its message to the errors of the chain; a stop ends the run when the
  chain has an error. The run keeps, for each rule it evaluated, the message of the rule
  and whether the value passed.
\<close>

definition toString :: "string option \<Rightarrow> string" where
  "toString v = (case v of None \<Rightarrow> [] | Some s \<Rightarrow> s)"

fun runItems :: "context_item list \<Rightarrow> string \<Rightarrow> (string \<times> bool) list \<Rightarrow> (string \<times> bool) list"
  where
  "runItems [] v done = done"
| "runItems (Validation neg validator m # items) v done =
     runItems items v (done @ [(m, if neg then \<not> validator v else validator v)])"
| "runItems (Bail # items) v done =
     (if list_all snd done then runItems items v done else done)"

definition evaluated :: "chain \<Rightarrow> string option \<Rightarrow> (string \<times> bool) list" where
  "evaluated c v = runItems (stack c) (toString v) []"

definition messages :: "chain \<Rightarrow> string option \<Rightarrow> string list" where
  "messages c v = map fst (filter (\<lambda>r. \<not> snd r) (evaluated c v))"

subsection \<open>The router\<close>

text \<open>The texts of the messages, under the names the test suite gives them.\<close>

definition username_null :: string where
  "username_null = ''Username cannot be null''"

definition username_size :: string where
  "username_size = ''Must have minimum 4 and maximum 32 characters''"

definition email_null :: string where
  "email_null = ''E-mail cannot be null''"

definition email_invalid :: string where
  "email_invalid = ''E-mail is not valid''"

definition email_in_use :: string where
  "email_in_use = ''E-mail in use''"

definition password_null :: string where
  "password_null = ''Password cannot be null''"

definition password_size :: string where
  "password_size = ''Password must be at least 6 characters long''"

definition password_pattern :: string where
  "password_pattern =
     ''Password must have at least one uppercase, one lowercase and one number''"

definition user_create_success :: string where
  "user_create_success = ''User created''"

text \<open>
  \<^verbatim>\<open>check('username').notEmpty().withMessage(...).bail()
    .isLength({ min: 4, max: 32 }).withMessage(...)\<close>
\<close>

definition username_chain :: chain where
  "username_chain = calls (check ''username'')
     [notEmpty, withMessage username_null, bail,
      isLength' 4 (Some 32), withMessage username_size]"

text \<open>
  \<^verbatim>\<open>check('email').notEmpty().withMessage(...).bail().isEmail().withMessage(...)\<close>
\<close>

definition email_chain :: chain where
  "email_chain = calls (check ''email'')
     [notEmpty, withMessage email_null, bail,
      isEmail', withMessage email_invalid]"

text \<open>
  \<^verbatim>\<open>check('password').notEmpty().withMessage(...).bail()
    .isLength({ min: 6 }).withMessage(...).bail()
    .matches(/^(?=.*[A-Z])(?=.*[a-z])(?=.*\d).*$/).withMessage(...)\<close>
\<close>

definition password_regex :: "regex list" where
  "password_regex =
     [Bol, Lookahead [Star dot, Class upper], Lookahead [Star dot, Class lower],
      Lookahead [Star dot, Class digit], Star dot, Eol]"

definition password_chain :: chain where
  "password_chain = calls (check ''password'')
     [notEmpty, withMessage password_null, bail,
      isLength' 6 None, withMessage password_size, bail,
      matches' password_regex, withMessage password_pattern]"

subsection \<open>Requests, responses and the state of the world\<close>

text \<open>
  A stored user: the object \<^verbatim>\<open>save\<close> hands to \<^verbatim>\<open>User.create\<close>. The table keeps it
  under a generated id.
\<close>

record user =
  username :: "string option"
  email :: "string option"
  password :: string
  activationToken :: string

text \<open>What a response carries: \<^verbatim>\<open>{ message }\<close> or \<^verbatim>\<open>{ validationErrors }\<close>, an object
  whose keys keep the order in which they were first set.\<close>

datatype payload =
    Message string
  | ValidationErrors "(string \<times> string) list"

record response =
  status :: nat
  body :: payload

text \<open>
  The request: the JSON body with its three fields, each a string or \<^verbatim>\<open>null\<close>, and the
  \<^verbatim>\<open>Accept-Language\<close> header. The three names occur in the body only, not among the
  query parameters, cookies or headers.
\<close>

record reqBody =
  username :: "string option"
  email :: "string option"
  password :: "string option"

record request =
  body :: reqBody
  acceptLanguage :: "string option"

text \<open>
  What one request can change: the table of users, and the calls made to the hashing
  library and to the mail service, in order.
\<close>

datatype effect =
    BcryptHash string nat \<comment> \<open>data, rounds\<close>
  | SendAccountActivation "string option" string \<comment> \<open>email, token\<close>

record world =
  users :: "(nat \<times> user) list"
  trace :: "effect list"

text \<open>
  An asynchronous operation either resolves to a value or rejects with an exception; what
  it did to the world before rejecting stays done.
\<close>

type_synonym 'a async = "world \<Rightarrow> (exception + 'a) \<times> world"

definition resolve :: "'a \<Rightarrow> 'a async" where
  "resolve x w = (Inr x, w)"

definition reject :: "exception \<Rightarrow> 'a async" where
  "reject e w = (Inl e, w)"

definition await :: "'a async \<Rightarrow> ('a \<Rightarrow> 'b async) \<Rightarrow> 'b async" where
  "await m f w = (case m w of (Inl e, w') \<Rightarrow> (Inl e, w') | (Inr x, w') \<Rightarrow> f x w')"

text \<open>
  \<^verbatim>\<open>bcrypt.hash(data, rounds)\<close> rejects when it is given no data and resolves to the
  digest otherwise.
\<close>

definition bcrypt_hash :: "env \<Rightarrow> string option \<Rightarrow> nat \<Rightarrow> string async" where
  "bcrypt_hash e data rounds w =
     (case data of
        None \<Rightarrow> reject IllegalArguments w
      | Some s \<Rightarrow> resolve (bcrypt_digest e s rounds) (w\<lparr>trace := trace w @ [BcryptHash s rounds]\<rparr>))"

text \<open>
  Modelled from the spec: the model \<^verbatim>\<open>User\<close> (\<^verbatim>\<open>src/user/User.js\<close>) is not among the
  sources. The spec describes a table with one row per user under a generated id and a
  unique index on the email; the test that registers an email twice and the router, which
  learns of a duplicate from a rejected \<^verbatim>\<open>User.create\<close> only, need that index.
\<close>

definition nextId :: "(nat \<times> user) list \<Rightarrow> nat" where
  "nextId rows = Suc (fold max (map fst rows) 0)"

definition emailStored :: "string option \<Rightarrow> world \<Rightarrow> bool" where
  "emailStored e w = list_ex (\<lambda>row. user.email (snd row) = e) (users w)"

definition User_create :: "env \<Rightarrow> user \<Rightarrow> (nat \<times> user) async" where
  "User_create e u w =
     (if store_down e then reject DatabaseError w
      else if user.email u \<noteq> None \<and> emailStored (user.email u) w
      then reject UniqueConstraintError w
      else resolve (nextId (users w), u) (w\<lparr>users := users w @ [(nextId (users w), u)]\<rparr>))"

definition User_findOne :: "env \<Rightarrow> string option \<Rightarrow> (nat \<times> user) option async" where
  "User_findOne e em w =
     (if store_down e then reject DatabaseError w
      else resolve (find (\<lambda>row. user.email (snd row) = em) (users w)) w)"

text \<open>
  Modelled from the spec: the mail service (\<^verbatim>\<open>src/email/EmailService.js\<close>) is not
  among the sources. The spec describes a sink that receives an email and a token and
  dispatches an activation message, and that may fail.
\<close>

definition sendAccountActivation :: "env \<Rightarrow> string option \<Rightarrow> string \<Rightarrow> unit async" where
  "sendAccountActivation e em token w =
     (if mail_down e then reject MailError else resolve ())
       (w\<lparr>trace := trace w @ [SendAccountActivation em token]\<rparr>)"

subsection \<open>The user service\<close>

text \<open>
  \<^verbatim>\<open>const save = async (body) => {
    const { username, email, password } = body;
    const hash = await bcrypt.hash(password, 10);
    const user = { username, email, password: hash, activationToken: generateToken(16) };
    await User.create(user);
    await EmailService.sendAccountActivation(email, user.activationToken);
  }\<close>
\<close>

definition save :: "env \<Rightarrow> reqBody \<Rightarrow> unit async" where
  "save e b =
     await (bcrypt_hash e (password b) 10) (\<lambda>hash.
       case generateToken e 16 of
         Inl err \<Rightarrow> reject err
       | Inr token \<Rightarrow>
           let user = \<lparr>user.username = username b, user.email = email b,
                       user.password = hash, user.activationToken = token\<rparr>
           in await (User_create e user) (\<lambda>_.
                sendAccountActivation e (email b) (user.activationToken user)))"

text \<open>\<^verbatim>\<open>const findByEmail = async (email) => await User.findOne({ where: { email } })\<close>\<close>

definition findByEmail :: "env \<Rightarrow> string option \<Rightarrow> (nat \<times> user) option async" where
  "findByEmail e em = User_findOne e em"

subsection \<open>The handler of POST /api/1.0/users\<close>

record validationError =
  path :: string
  msg :: string

definition getField :: "string \<Rightarrow> reqBody \<Rightarrow> string option" where
  "getField f b =
     (if f = ''username'' then username b
      else if f = ''email'' then email b
      else if f = ''password'' then password b
      else None)"

text \<open>One chain as a middleware: the errors it leaves on the request.\<close>

definition run :: "chain \<Rightarrow> request \<Rightarrow> validationError list" where
  "run c req =
     map (\<lambda>m. \<lparr>path = field c, msg = m\<rparr>) (messages c (getField (field c) (body req)))"

text \<open>The chains in the order the router lists them.\<close>

definition chains :: "chain list" where
  "chains = [username_chain, email_chain, password_chain]"

text \<open>\<^verbatim>\<open>validationResult(req).array()\<close>: the errors of the chains, in that order.\<close>

definition validationResult :: "request \<Rightarrow> validationError list" where
  "validationResult req = concat (map (\<lambda>c. run c req) chains)"

text \<open>\<^verbatim>\<open>object[key] = value\<close>: a new key goes last, a known key keeps its place.\<close>

fun assign :: "string \<Rightarrow> string \<Rightarrow> (string \<times> string) list \<Rightarrow> (string \<times> string) list" where
  "assign k v [] = [(k, v)]"
| "assign k v (p # ps) = (if fst p = k then (k, v) # ps else p # assign k v ps)"

text \<open>
  \<^verbatim>\<open>async (req, res) => {
    const errors = validationResult(req);
    if (!errors.isEmpty()) {
      const discoveredErrors = {};
      errors.array().forEach((error) => (discoveredErrors[error.path] = error.msg));
      return res.status(400).send({ validationErrors: discoveredErrors });
    }
    try {
      await UserService.save(req.body);
      return res.send({ message: 'User created' });
    } catch (err) {
      return res.status(400).send({ validationErrors: { email: 'E-mail in use' } });
    }
  }\<close>
\<close>

definition post :: "env \<Rightarrow> request \<Rightarrow> world \<Rightarrow> response \<times> world" where
  "post e req w =
     (let errors = validationResult req in
      if errors \<noteq> [] then
        (\<lparr>status = 400,
          body = ValidationErrors (fold (\<lambda>error d. assign (path error) (msg error) d) errors [])\<rparr>,
         w)
      else
        (case save e (body req) w of
           (Inr _, w') \<Rightarrow> (\<lparr>status = 200, body = Message user_create_success\<rparr>, w')
         | (Inl err, w') \<Rightarrow>
             (\<lparr>status = 400, body = ValidationErrors [(''email'', email_in_use)]\<rparr>, w')))"

subsection \<open>Failing fields, said without running the chains\<close>

text \<open>
  A value fails a rule when the rule's validator rejects it (accepts it, for a negated
  rule). The failure of a chain on a value is the message of the first rule, in the order
  of the chain, that the value fails; a field is invalid when its chain has a failure. The
  validation errors a request ought to get map each invalid field to that message, the
  fields in the order of their chains.
\<close>

definition fails :: "string \<Rightarrow> context_item \<Rightarrow> bool" where
  "fails v item =
     (case item of
        Validation neg validator m \<Rightarrow> (if neg then validator v else \<not> validator v)
      | Bail \<Rightarrow> False)"

definition firstFailure :: "chain \<Rightarrow> string option \<Rightarrow> string option" where
  "firstFailure c v =
     (case find (fails (toString v)) (stack c) of
        Some (Validation neg validator m) \<Rightarrow> Some m
      | _ \<Rightarrow> None)"

definition invalid :: "request \<Rightarrow> chain \<Rightarrow> bool" where
  "invalid req c = (firstFailure c (getField (field c) (body req)) \<noteq> None)"

definition invalidFields :: "request \<Rightarrow> string list" where
  "invalidFields req = map field (filter (invalid req) chains)"

definition expectedErrors :: "request \<Rightarrow> (string \<times> string) list" where
  "expectedErrors req =
     concat (map (\<lambda>c. case firstFailure c (getField (field c) (body req)) of
                         None \<Rightarrow> [] | Some m \<Rightarrow> [(field c, m)]) chains)"

subsection \<open>Fixtures\<close>

text \<open>The valid user of the test suite.\<close>

definition validUser :: reqBody where
  "validUser = \<lparr>username = Some ''user1'', email = Some ''user1@mail.com'',
     password = Some ''passworD987654''\<rparr>"

text \<open>An environment in which every collaborator answers, and an empty world.\<close>

lift_definition fair_bcrypt :: hasher is
  "\<lambda>data rounds.
     if data = ''$2b$10$N9qo8uLOickgx2ZMRZoMyeIjZAgcfl7p92ldGxad68LJZdL17lhWy''
     then ''$2b$10$CwTycUXWue0Thq9StjUM0uJ8KbR2rYm4o1eF6zQ0y0a8b1k2Qe1vK''
     else ''$2b$10$N9qo8uLOickgx2ZMRZoMyeIjZAgcfl7p92ldGxad68LJZdL17lhWy''"
  by simp

definition fair :: env where
  "fair = \<lparr>bcrypt = fair_bcrypt, entropy = (\<lambda>i. 0xA7), store_down = False,
            mail_down = False\<rparr>"

definition nothing :: world where
  "nothing = \<lparr>users = [], trace = []\<rparr>"

text \<open>The world after the valid user has registered in that environment.\<close>

definition registered :: world where
  "registered = snd (post fair \<lparr>body = validUser, acceptLanguage = None\<rparr> nothing)"

text \<open>The valid user without a username, and a request without username and email.\<close>

definition nullUsername :: reqBody where
  "nullUsername = \<lparr>username = None, email = Some ''user1@mail.com'',
     password = Some ''passworD987654''\<rparr>"

definition twoNulls :: request where
  "twoNulls = \<lparr>body = \<lparr>username = None, email = None, password = Some ''passworD987654''\<rparr>,
     acceptLanguage = None\<rparr>"

section \<open>Properties\<close>

subsection \<open>Token generation\<close>

lemma length_hex: "length (hex buf) = 2 * length buf"
  by (induction buf) (simp_all add: hex_def)

lemma hex_digit_mem: "d < 16 \<Longrightarrow> hex_digits ! d \<in> set hex_digits"
  by (rule nth_mem) (simp add: hex_digits_def)

lemma set_hex: "set (hex buf) \<subseteq> set hex_digits"
proof (induction buf)
  case Nil
  show ?case by (simp add: hex_def)
next
  case (Cons b bs)
  have "unat b < 256"
    using unsigned_less [of b, where ?'a = nat] by simp
  then have hi: "unat b div 16 < 16"
    by arith
  have lo: "unat b mod 16 < 16" by simp
  from Cons hex_digit_mem [OF hi] hex_digit_mem [OF lo]
  show ?case by (simp add: hex_def)
qed

text \<open>Within the two bounds of the platform the token is the front of the hex string.\<close>

lemma generateToken_within:
  assumes "n \<le> 2147483647" and "2 * n \<le> MAX_STRING_LENGTH"
  shows "generateToken e n = Inr (take n (hex (bytes e n)))"
  using assms
  by (simp add: generateToken_def randomBytes_def toString_hex_def substring_def Let_def
      length_hex bytes_def)

lemma generateToken_16: "generateToken e 16 = Inr (take 16 (hex (bytes e 16)))"
  by (rule generateToken_within) (simp_all add: MAX_STRING_LENGTH_def)

text \<open>Beyond either bound the call throws and no token is returned.\<close>

lemma generateToken_RangeError: "2147483647 < n \<Longrightarrow> generateToken e n = Inl RangeError"
  by (simp add: generateToken_def randomBytes_def)

lemma generateToken_StringTooLong:
  "n \<le> 2147483647 \<Longrightarrow> MAX_STRING_LENGTH < 2 * n \<Longrightarrow> generateToken e n = Inl StringTooLong"
  by (simp add: generateToken_def randomBytes_def toString_hex_def bytes_def)

lemma length_token: "length (take n (hex (bytes e n))) = n"
  by (simp add: length_hex bytes_def)

lemma set_token: "set (take n (hex (bytes e n))) \<subseteq> set hex_digits"
  using set_take_subset set_hex by fast

text \<open>
  C9, where the two library calls do not throw. For every requested length \<open>n\<close> that
  \<^verbatim>\<open>crypto.randomBytes\<close> accepts, which is up to \<open>2\<^sup>3\<^sup>1 - 1\<close>, and whose \<open>2 * n\<close>
  hexadecimal digits \<^verbatim>\<open>toString('hex')\<close> can put in one string, \<^verbatim>\<open>generateToken(n)\<close>
  returns a string of exactly \<open>n\<close> characters, each of them one of the hexadecimal digits
  \<^verbatim>\<open>0-9\<close>, \<^verbatim>\<open>a-f\<close>. The length 16 that \<^verbatim>\<open>save\<close> asks for is such a length. As the
  claim is written, for every length, it fails where \<^verbatim>\<open>crypto.randomBytes\<close> throws: the
  counterexample follows the witness.
\<close>

theorem generateToken_length_hex:
  assumes "n \<le> 2147483647" and "2 * n \<le> MAX_STRING_LENGTH"
  shows "(\<exists>token. generateToken e n = Inr token \<and> length token = n \<and>
            set token \<subseteq> set hex_digits) \<and>
         (\<exists>token. generateToken e 16 = Inr token \<and> length token = 16 \<and>
            set token \<subseteq> set hex_digits)"
  using generateToken_within [OF assms, of e] generateToken_16 [of e]
    length_token [of n e] set_token [of n e] length_token [of 16 e] set_token [of 16 e]
  by simp

theorem generateToken_length_hex_witness:
  "16 \<le> (2147483647 :: nat) \<and> 2 * 16 \<le> MAX_STRING_LENGTH \<and>
   (\<exists>token. generateToken fair 16 = Inr token \<and> length token = 16 \<and>
      set token \<subseteq> set hex_digits)"
proof -
  have a: "(16 :: nat) \<le> 2147483647" by simp
  have b: "2 * 16 \<le> MAX_STRING_LENGTH" by (simp add: MAX_STRING_LENGTH_def)
  from generateToken_length_hex [OF a b, of fair] a b show ?thesis by simp
qed

text \<open>One more than the largest size \<^verbatim>\<open>crypto.randomBytes\<close> accepts: no token is returned.\<close>

theorem generateToken_beyond_range:
  "generateToken fair 2147483648 = Inl RangeError"
  by (simp add: generateToken_def randomBytes_def)

subsection \<open>The digest is not the data\<close>


lemma bcrypt_digest_update [simp]:
  "bcrypt_digest (e\<lparr>store_down := x\<rparr>) = bcrypt_digest e"
  "bcrypt_digest (e\<lparr>mail_down := x\<rparr>) = bcrypt_digest e"
  by (simp_all add: bcrypt_digest_def)

subsection \<open>The stacks of the three chains\<close>

lemmas chain_builders =
  calls_def check_def notEmpty_def not'_def addItem_def withMessage_def bail_def
  isLength'_def isEmail'_def matches'_def

lemma username_stack:
  "stack username_chain =
     [Validation True isEmpty username_null, Bail,
      Validation False (isLength 4 (Some 32)) username_size]"
  by (simp add: username_chain_def chain_builders)

lemma email_stack:
  "stack email_chain =
     [Validation True isEmpty email_null, Bail, Validation False isEmail email_invalid]"
  by (simp add: email_chain_def chain_builders)

lemma password_stack:
  "stack password_chain =
     [Validation True isEmpty password_null, Bail,
      Validation False (isLength 6 None) password_size, Bail,
      Validation False (matches password_regex) password_pattern]"
  by (simp add: password_chain_def chain_builders)

lemma chain_fields:
  "field username_chain = ''username''" "field email_chain = ''email''"
  "field password_chain = ''password''"
  by (simp_all add: username_chain_def email_chain_def password_chain_def chain_builders)

lemma username_evaluated:
  "evaluated username_chain v =
     (if toString v = [] then [(username_null, False)]
      else [(username_null, True), (username_size, isLength 4 (Some 32) (toString v))])"
  by (simp add: evaluated_def username_stack isEmpty_def)

lemma email_evaluated:
  "evaluated email_chain v =
     (if toString v = [] then [(email_null, False)]
      else [(email_null, True), (email_invalid, isEmail (toString v))])"
  by (simp add: evaluated_def email_stack isEmpty_def)

lemma password_evaluated:
  "evaluated password_chain v =
     (if toString v = [] then [(password_null, False)]
      else if \<not> isLength 6 None (toString v)
      then [(password_null, True), (password_size, False)]
      else [(password_null, True), (password_size, True),
            (password_pattern, matches password_regex (toString v))])"
  by (simp add: evaluated_def password_stack isEmpty_def)

subsection \<open>The pattern of the password\<close>

lemma star_eol: "match_here b [Star p, Eol] s = list_all p s"
  by (induction s arbitrary: b) auto

lemma star_class: "match_here b [Star p, Class q] s \<Longrightarrow> list_ex q s"
  by (induction s arbitrary: b) auto

lemma star_class_all: "list_all p s \<Longrightarrow> match_here b [Star p, Class q] s = list_ex q s"
  by (induction s arbitrary: b) auto

lemma search_bol_False: "search False (Bol # rs) s = False"
  by (induction s) auto

lemma test_bol: "test (Bol # rs) s = match_here True rs s"
  by (cases s) (auto simp: test_def search_bol_False)

text \<open>
  The pattern accepts exactly the strings with an upper-case letter, a lower-case letter
  and a digit that have no line terminator.
\<close>

lemma password_regex_iff:
  "matches password_regex s =
     (list_all dot s \<and> list_ex upper s \<and> list_ex lower s \<and> list_ex digit s)"
  apply (simp add: matches_def password_regex_def test_bol star_eol)
  using star_class star_class_all by blast

subsection \<open>The rules of each field\<close>

text \<open>
  C5. For every password value: \<^verbatim>\<open>null\<close> or the empty string yields the message
  \<open>password_null\<close>; otherwise a length below 6 yields \<open>password_size\<close> (so
  \<^verbatim>\<open>P4ssw\<close> fails the size rule); otherwise a password without an upper-case letter,
  without a lower-case letter or without a digit yields \<open>password_pattern\<close> (so each of
  \<^verbatim>\<open>alllowercase\<close>, \<^verbatim>\<open>ALLUPPERCASE\<close>, \<^verbatim>\<open>123456789\<close>, \<^verbatim>\<open>lowerandUPPER\<close>,
  \<^verbatim>\<open>lowerand123\<close>, \<^verbatim>\<open>UPPERAND123\<close> fails the pattern rule); \<^verbatim>\<open>passworD987654\<close>
  passes. Once a rule of the field has failed, the later rules of the field are not
  evaluated: the run of the chain ends with the failed rule.
\<close>

theorem password_rules:
  "(v = None \<or> v = Some [] \<longrightarrow>
      evaluated password_chain v = [(password_null, False)] \<and>
      messages password_chain v = [password_null]) \<and>
   (s \<noteq> [] \<and> length s < 6 \<longrightarrow>
      evaluated password_chain (Some s) = [(password_null, True), (password_size, False)] \<and>
      messages password_chain (Some s) = [password_size]) \<and>
   (6 \<le> length t \<and> \<not> (list_ex upper t \<and> list_ex lower t \<and> list_ex digit t) \<longrightarrow>
      evaluated password_chain (Some t) =
        [(password_null, True), (password_size, True), (password_pattern, False)] \<and>
      messages password_chain (Some t) = [password_pattern]) \<and>
   messages password_chain (Some ''P4ssw'') = [password_size] \<and>
   messages password_chain (Some ''alllowercase'') = [password_pattern] \<and>
   messages password_chain (Some ''ALLUPPERCASE'') = [password_pattern] \<and>
   messages password_chain (Some ''123456789'') = [password_pattern] \<and>
   messages password_chain (Some ''lowerandUPPER'') = [password_pattern] \<and>
   messages password_chain (Some ''lowerand123'') = [password_pattern] \<and>
   messages password_chain (Some ''UPPERAND123'') = [password_pattern] \<and>
   messages password_chain (Some ''passworD987654'') = []"
proof (intro conjI impI)
  assume "v = None \<or> v = Some []"
  then have "toString v = []" by (auto simp: toString_def)
  then show "evaluated password_chain v = [(password_null, False)]"
    by (simp add: password_evaluated)
  then show "messages password_chain v = [password_null]"
    by (simp add: messages_def)
next
  assume "s \<noteq> [] \<and> length s < 6"
  then show "evaluated password_chain (Some s) = [(password_null, True), (password_size, False)]"
    by (simp add: password_evaluated toString_def isLength_def)
  then show "messages password_chain (Some s) = [password_size]"
    by (simp add: messages_def)
next
  assume a: "6 \<le> length t \<and> \<not> (list_ex upper t \<and> list_ex lower t \<and> list_ex digit t)"
  then have "t \<noteq> []" by auto
  with a show "evaluated password_chain (Some t) =
      [(password_null, True), (password_size, True), (password_pattern, False)]"
    by (simp add: password_evaluated toString_def isLength_def password_regex_iff)
  then show "messages password_chain (Some t) = [password_pattern]"
    by (simp add: messages_def)
next
  show "messages password_chain (Some ''P4ssw'') = [password_size]" by code_simp
  show "messages password_chain (Some ''alllowercase'') = [password_pattern]" by code_simp
  show "messages password_chain (Some ''ALLUPPERCASE'') = [password_pattern]" by code_simp
  show "messages password_chain (Some ''123456789'') = [password_pattern]" by code_simp
  show "messages password_chain (Some ''lowerandUPPER'') = [password_pattern]" by code_simp
  show "messages password_chain (Some ''lowerand123'') = [password_pattern]" by code_simp
  show "messages password_chain (Some ''UPPERAND123'') = [password_pattern]" by code_simp
  show "messages password_chain (Some ''passworD987654'') = []" by code_simp
qed

theorem password_rules_witness:
  "messages password_chain None = [password_null] \<and>
   evaluated password_chain (Some ''Ab1'') = [(password_null, True), (password_size, False)] \<and>
   evaluated password_chain (Some ''abcdef1'') =
     [(password_null, True), (password_size, True), (password_pattern, False)]"
  using password_rules [of None "''Ab1''" "''abcdef1''"]
  by (simp add: upper_def between_def)

text \<open>
  C6. For every username value: \<^verbatim>\<open>null\<close> or the empty string yields the message
  \<open>username_null\<close>; a username of length 3 or 33 fails with \<open>username_size\<close>; a
  username of length 4 or 32 passes the rules of the field.
\<close>

theorem username_rules:
  "(v = None \<or> v = Some [] \<longrightarrow> messages username_chain v = [username_null]) \<and>
   (length s = 3 \<or> length s = 33 \<longrightarrow> messages username_chain (Some s) = [username_size]) \<and>
   (length t = 4 \<or> length t = 32 \<longrightarrow> messages username_chain (Some t) = [])"
  by (auto simp: messages_def username_evaluated toString_def isLength_def)

theorem username_rules_witness:
  "messages username_chain None = [username_null] \<and>
   messages username_chain (Some ''usr'') = [username_size] \<and>
   messages username_chain (Some ''user'') = []"
  using username_rules [of None "''usr''" "''user''"] by simp

subsection \<open>The shape of an accepted email\<close>

lemma split_not_Nil: "split sep s \<noteq> []"
  by (induction s) (auto split: list.splits)

lemma split_single: "sep \<notin> set s \<Longrightarrow> split sep s = [s]"
  by (induction s) auto

lemma split_length: "2 \<le> length (split sep s) \<Longrightarrow> sep \<in> set s"
  using split_single [of sep s] by (cases "sep \<in> set s") auto

lemma join_snoc: "ps \<noteq> [] \<Longrightarrow> join sep (ps @ [p]) = join sep ps @ sep # p"
  by (induction sep ps rule: join.induct) auto

lemma join_split: "join sep (split sep s) = s"
proof (induction s)
  case Nil
  show ?case by simp
next
  case (Cons c cs)
  show ?case
  proof (cases "c = sep")
    case True
    with Cons split_not_Nil [of sep cs] show ?thesis
      by (cases "split sep cs") auto
  next
    case False
    with Cons split_not_Nil [of sep cs] show ?thesis
      by (cases "split sep cs"; cases "tl (split sep cs)") auto
  qed
qed

lemma split_last:
  assumes "butlast (split sep s) \<noteq> []"
  shows "s = join sep (butlast (split sep s)) @ sep # last (split sep s)"
proof -
  have "split sep s = butlast (split sep s) @ [last (split sep s)]"
    using split_not_Nil by simp
  then have "join sep (split sep s) =
      join sep (butlast (split sep s)) @ sep # last (split sep s)"
    using join_snoc [OF assms] by metis
  then show ?thesis by (simp add: join_split)
qed

lemma isFQDN_dot: "isFQDN d \<Longrightarrow> CHR ''.'' \<in> set d"
  by (rule split_length) (auto simp: isFQDN_def Let_def split: if_splits)

lemma test_plus_Nil: "\<not> test [Bol, Class p, Star p, Eol] []"
  by (simp add: test_def)

lemma isEmail_shape:
  assumes "isEmail s"
  shows "\<exists>l d. s = l @ CHR ''@'' # d \<and> l \<noteq> [] \<and> CHR ''.'' \<in> set d"
proof -
  define parts where "parts = split CHR ''@'' s"
  define d where "d = last parts"
  define l where "l = join CHR ''@'' (butlast parts)"
  from assms have fq: "isFQDN d"
    by (auto simp: isEmail_def Let_def parts_def d_def split: if_splits)
  have "l \<noteq> []"
  proof
    assume "l = []"
    with assms show False
      by (auto simp: isEmail_def Let_def parts_def l_def test_plus_Nil split: if_splits)
  qed
  moreover from this have "butlast parts \<noteq> []"
    by (auto simp: l_def)
  then have "s = l @ CHR ''@'' # d"
    unfolding l_def d_def parts_def by (rule split_last)
  ultimately show ?thesis
    using isFQDN_dot [OF fq] by blast
qed

text \<open>
  C7. For every email value: \<^verbatim>\<open>null\<close> or the empty string yields the message
  \<open>email_null\<close>; the values \<^verbatim>\<open>mail.com\<close>, \<^verbatim>\<open>user.mail.com\<close> and \<^verbatim>\<open>user@mail\<close>
  fail with \<open>email_invalid\<close>; \<^verbatim>\<open>user1@mail.com\<close> passes the rules of the field. The
  three fail for want of the shape every accepted email has: a non-empty local part, an
  \<^verbatim>\<open>@\<close>, and a domain with a dot in it.
\<close>

theorem email_rules:
  "(v = None \<or> v = Some [] \<longrightarrow> messages email_chain v = [email_null]) \<and>
   messages email_chain (Some ''mail.com'') = [email_invalid] \<and>
   messages email_chain (Some ''user.mail.com'') = [email_invalid] \<and>
   messages email_chain (Some ''user@mail'') = [email_invalid] \<and>
   messages email_chain (Some ''user1@mail.com'') = [] \<and>
   (messages email_chain (Some s) = [] \<longrightarrow>
      (\<exists>l d. s = l @ CHR ''@'' # d \<and> l \<noteq> [] \<and> CHR ''.'' \<in> set d))"
proof (intro conjI impI)
  assume "v = None \<or> v = Some []"
  then show "messages email_chain v = [email_null]"
    by (auto simp: messages_def email_evaluated toString_def)
next
  show "messages email_chain (Some ''mail.com'') = [email_invalid]" by code_simp
  show "messages email_chain (Some ''user.mail.com'') = [email_invalid]" by code_simp
  show "messages email_chain (Some ''user@mail'') = [email_invalid]" by code_simp
  show "messages email_chain (Some ''user1@mail.com'') = []" by code_simp
next
  assume "messages email_chain (Some s) = []"
  then have "isEmail s"
    by (auto simp: messages_def email_evaluated toString_def split: if_splits)
  then show "\<exists>l d. s = l @ CHR ''@'' # d \<and> l \<noteq> [] \<and> CHR ''.'' \<in> set d"
    by (rule isEmail_shape)
qed

theorem email_rules_witness:
  "messages email_chain (Some []) = [email_null] \<and>
   (\<exists>l d. ''user1@mail.com'' = l @ CHR ''@'' # d \<and> l \<noteq> [] \<and> CHR ''.'' \<in> set d)"
proof -
  have "messages email_chain (Some ''user1@mail.com'') = []" by code_simp
  then show ?thesis
    using email_rules [of "Some []" "''user1@mail.com''"] by simp
qed

subsection \<open>Invalid requests\<close>

lemma username_messages:
  "messages username_chain v =
     (case firstFailure username_chain v of None \<Rightarrow> [] | Some m \<Rightarrow> [m])"
  by (simp add: messages_def username_evaluated firstFailure_def username_stack fails_def
      isEmpty_def)

lemma email_messages:
  "messages email_chain v =
     (case firstFailure email_chain v of None \<Rightarrow> [] | Some m \<Rightarrow> [m])"
  by (simp add: messages_def email_evaluated firstFailure_def email_stack fails_def
      isEmpty_def)

lemma password_messages:
  "messages password_chain v =
     (case firstFailure password_chain v of None \<Rightarrow> [] | Some m \<Rightarrow> [m])"
  by (simp add: messages_def password_evaluated firstFailure_def password_stack fails_def
      isEmpty_def)

lemma validationResult_expected:
  "validationResult req = map (\<lambda>p. \<lparr>path = fst p, msg = snd p\<rparr>) (expectedErrors req)"
  by (simp add: validationResult_def expectedErrors_def chains_def run_def
      username_messages email_messages password_messages split: option.splits)

lemma assign_fresh: "k \<notin> fst ` set d \<Longrightarrow> assign k v d = d @ [(k, v)]"
  by (induction d) auto

lemma fold_assign:
  "distinct (map fst ps) \<Longrightarrow> fst ` set ps \<inter> fst ` set d = {} \<Longrightarrow>
   fold (\<lambda>error. assign (path error) (msg error)) (map (\<lambda>p. \<lparr>path = fst p, msg = snd p\<rparr>) ps) d
     = d @ ps"
proof (induction ps arbitrary: d)
  case Nil
  show ?case by simp
next
  case (Cons p ps)
  from Cons.prems have fresh: "fst p \<notin> fst ` set d" by auto
  from Cons.prems have "fst ` set ps \<inter> fst ` set (d @ [(fst p, snd p)]) = {}"
    by auto
  with Cons have
    "fold (\<lambda>error. assign (path error) (msg error))
       (map (\<lambda>p. \<lparr>path = fst p, msg = snd p\<rparr>) ps) (d @ [(fst p, snd p)])
     = (d @ [(fst p, snd p)]) @ ps"
    by simp
  with fresh show ?case by (simp add: assign_fresh)
qed

lemma expected_keys: "map fst (expectedErrors req) = invalidFields req"
  by (simp add: expectedErrors_def invalidFields_def invalid_def chains_def split: option.splits)

lemma invalidFields_distinct: "distinct (invalidFields req)"
  by (simp add: invalidFields_def chains_def chain_fields)

lemma chains_fields: "map field chains = [''username'', ''email'', ''password'']"
  by (simp add: chains_def chain_fields)

lemma twoNulls_invalid: "invalidFields twoNulls = [''username'', ''email'']"
  by code_simp

lemma twoNulls_expected:
  "expectedErrors twoNulls = [(''username'', username_null), (''email'', email_null)]"
  by code_simp

text \<open>
  C4. For every request with at least one invalid field the service answers 400 with a
  \<^verbatim>\<open>validationErrors\<close> object that holds exactly the invalid fields, in the order
  username, email, password, each with one message, that of the first rule the value of
  the field fails. The world is left as it was: no user row is created, nothing is hashed
  and no notification is attempted.
\<close>

theorem invalid_request:
  assumes "invalidFields req \<noteq> []"
  shows "post e req w = (\<lparr>status = 400, body = ValidationErrors (expectedErrors req)\<rparr>, w) \<and>
         map fst (expectedErrors req) = invalidFields req \<and>
         map field chains = [''username'', ''email'', ''password'']"
proof -
  have keys: "map fst (expectedErrors req) = invalidFields req"
    by (rule expected_keys)
  with assms have ne: "validationResult req \<noteq> []"
    by (auto simp: validationResult_expected)
  have "distinct (map fst (expectedErrors req))"
    by (simp add: keys invalidFields_distinct)
  then have "fold (\<lambda>error. assign (path error) (msg error)) (validationResult req) []
      = expectedErrors req"
    using fold_assign [of "expectedErrors req" "[]"] by (simp add: validationResult_expected)
  with ne have "post e req w = (\<lparr>status = 400, body = ValidationErrors (expectedErrors req)\<rparr>, w)"
    by (simp add: post_def Let_def)
  with keys chains_fields show ?thesis by simp
qed

text \<open>The request of the test suite without username and email.\<close>

theorem invalid_request_witness:
  "post fair twoNulls nothing =
     (\<lparr>status = 400,
       body = ValidationErrors [(''username'', username_null), (''email'', email_null)]\<rparr>,
      nothing)"
  using invalid_request [of twoNulls fair nothing]
  by (simp add: twoNulls_invalid twoNulls_expected)

subsection \<open>Valid requests\<close>

lemma valid_fields:
  assumes "validationResult req = []"
  shows "\<exists>u m pw. username (body req) = Some u \<and> email (body req) = Some m \<and>
           password (body req) = Some pw \<and> isLength 4 (Some 32) u \<and> isEmail m \<and>
           isLength 6 None pw \<and> matches password_regex pw"
proof -
  from assms have u: "messages username_chain (username (body req)) = []"
    and m: "messages email_chain (email (body req)) = []"
    and p: "messages password_chain (password (body req)) = []"
    by (simp_all add: validationResult_def chains_def run_def chain_fields getField_def)
  from u obtain u' where "username (body req) = Some u'" "isLength 4 (Some 32) u'"
    by (cases "username (body req)")
      (auto simp: messages_def username_evaluated toString_def split: if_splits)
  moreover from m obtain m' where "email (body req) = Some m'" "isEmail m'"
    by (cases "email (body req)")
      (auto simp: messages_def email_evaluated toString_def split: if_splits)
  moreover from p obtain p' where "password (body req) = Some p'"
      "isLength 6 None p'" "matches password_regex p'"
    by (cases "password (body req)")
      (auto simp: messages_def password_evaluated toString_def split: if_splits)
  ultimately show ?thesis by blast
qed

text \<open>What \<open>save\<close> does, by the answers of the collaborators.\<close>

lemma save_cases:
  assumes "password b = Some pw"
  shows "save e b w =
     (let token = projr (generateToken e 16);
          row = \<lparr>user.username = username b, user.email = email b,
                 user.password = bcrypt_digest e pw 10, user.activationToken = token\<rparr>;
          hashed = w\<lparr>trace := trace w @ [BcryptHash pw 10]\<rparr>
      in if store_down e then (Inl DatabaseError, hashed)
         else if email b \<noteq> None \<and> emailStored (email b) w
         then (Inl UniqueConstraintError, hashed)
         else (if mail_down e then Inl MailError else Inr (),
               w\<lparr>users := users w @ [(nextId (users w), row)],
                 trace := trace w @ [BcryptHash pw 10, SendAccountActivation (email b) token]\<rparr>))"
  using assms
  by (simp add: save_def await_def bcrypt_hash_def resolve_def reject_def User_create_def
      sendAccountActivation_def Let_def emailStored_def generateToken_16)

lemma post_valid:
  assumes "validationResult req = []"
  shows "post e req w =
     (case save e (body req) w of
        (Inr _, w') \<Rightarrow> (\<lparr>status = 200, body = Message user_create_success\<rparr>, w')
      | (Inl err, w') \<Rightarrow>
          (\<lparr>status = 400, body = ValidationErrors [(''email'', email_in_use)]\<rparr>, w'))"
  using assms by (simp add: post_def Let_def)

text \<open>The fixtures, evaluated.\<close>

lemma validUser_valid: "validationResult \<lparr>body = validUser, acceptLanguage = l\<rparr> = []"
  by (simp add: validationResult_expected) code_simp

lemma validUser_fields:
  "username validUser = Some ''user1''" "email validUser = Some ''user1@mail.com''"
  "password validUser = Some ''passworD987654''"
  by (simp_all add: validUser_def)

lemma fair_token: "generateToken e 16 = Inr ''a7a7a7a7a7a7a7a7''"
  if "entropy e = (\<lambda>i. 0xA7)"
  using that by (simp add: generateToken_16 bytes_def hex_def hex_digits_def upt_rec)

lemma fair_entropy:
  "entropy fair = (\<lambda>i. 0xA7)" "entropy (fair\<lparr>store_down := x\<rparr>) = (\<lambda>i. 0xA7)"
  "entropy (fair\<lparr>mail_down := x\<rparr>) = (\<lambda>i. 0xA7)"
  by (simp_all add: fair_def)

lemma fair_fields:
  "\<not> store_down fair" "\<not> mail_down fair"
  "bcrypt_digest fair ''passworD987654'' n =
     ''$2b$10$N9qo8uLOickgx2ZMRZoMyeIjZAgcfl7p92ldGxad68LJZdL17lhWy''"
  by (simp_all add: fair_def bcrypt_digest_def fair_bcrypt.rep_eq)

lemma nextId_Nil: "nextId [] = 1"
  by (simp add: nextId_def)

lemma nothing_fresh: "\<not> emailStored em nothing"
  by (simp add: emailStored_def nothing_def)

subsection \<open>Registration\<close>




subsection \<open>Failures of the store and of the mail service\<close>

text \<open>The handler answers 200 or 400, whatever happens.\<close>

lemma post_status: "status (fst (post e req w)) = 200 \<or> status (fst (post e req w)) = 400"
  by (simp add: post_def Let_def split: prod.splits sum.splits)

text \<open>
  C3, as the handler has it. If persisting the user fails for a reason other than a
  duplicate email, the request is answered with status 400 and the email field mapped to
  the email-in-use message, the answer the handler gives to whatever \<open>save\<close> throws; no
  row is created. The claim as written asks for a server fault, which the handler does
  not answer: the counterexample follows the witness.
\<close>

theorem store_failure_answer:
  assumes valid: "validationResult req = []"
    and down: "store_down e"
  shows "fst (save e (body req) w) = Inl DatabaseError \<and>
         post e req w =
           (\<lparr>status = 400, body = ValidationErrors [(''email'', email_in_use)]\<rparr>,
            w\<lparr>trace := trace w @ [BcryptHash (toString (password (body req))) 10]\<rparr>)"
proof -
  from valid_fields [OF valid] obtain pw where "password (body req) = Some pw"
    by blast
  with down show ?thesis
    by (simp add: post_valid [OF valid] save_cases Let_def toString_def)
qed

theorem store_failure_answer_witness:
  "post (fair\<lparr>store_down := True\<rparr>) \<lparr>body = validUser, acceptLanguage = None\<rparr> nothing =
     (\<lparr>status = 400, body = ValidationErrors [(''email'', email_in_use)]\<rparr>,
      \<lparr>users = [], trace = [BcryptHash ''passworD987654'' 10]\<rparr>)"
  using store_failure_answer
    [of "\<lparr>body = validUser, acceptLanguage = None\<rparr>" "fair\<lparr>store_down := True\<rparr>" nothing]
  by (simp add: validUser_valid validUser_fields toString_def nothing_def)

text \<open>
  The valid user in an empty world, the store failing: no email is stored, so the failure
  is no duplicate, and the status is 400.
\<close>

theorem store_failure_not_5xx:
  "validationResult \<lparr>body = validUser, acceptLanguage = None\<rparr> = [] \<and>
   \<not> emailStored (email validUser) nothing \<and>
   fst (save (fair\<lparr>store_down := True\<rparr>) validUser nothing) = Inl DatabaseError \<and>
   status (fst (post (fair\<lparr>store_down := True\<rparr>)
                  \<lparr>body = validUser, acceptLanguage = None\<rparr> nothing)) = 400"
  by (simp add: validUser_valid nothing_fresh post_valid save_cases validUser_fields Let_def)

text \<open>
  C10. If the user row is created and the dispatch of the activation mail then throws, the
  service answers 400 with the email field mapped to the email-in-use message, and the new
  row, with the digest and the token, stays in the store: the registration is neither
  rolled back nor reported as succeeded. The answer is the one a duplicate email gets:
  whenever the store works and the email is stored, as it now is, \<open>save\<close> fails on the
  unique index and the response is the same.
\<close>

theorem dispatch_failure:
  assumes valid: "validationResult req = []"
    and fresh: "\<not> emailStored (email (body req)) w"
    and up: "\<not> store_down e"
    and down: "mail_down e"
  shows "let b = body req; pw = toString (password b); token = projr (generateToken e 16);
             row = \<lparr>user.username = username b, user.email = email b,
                    user.password = bcrypt_digest e pw 10, user.activationToken = token\<rparr>;
             w' = w\<lparr>users := users w @ [(nextId (users w), row)],
                    trace := trace w @ [BcryptHash pw 10, SendAccountActivation (email b) token]\<rparr>
         in post e req w =
              (\<lparr>status = 400, body = ValidationErrors [(''email'', email_in_use)]\<rparr>, w') \<and>
            generateToken e 16 = Inr token \<and>
            emailStored (email b) w' \<and>
            (\<forall>e2 w2. \<not> store_down e2 \<and> emailStored (email b) w2 \<longrightarrow>
               fst (save e2 b w2) = Inl UniqueConstraintError \<and>
               fst (post e2 req w2) = fst (post e req w))"
proof -
  from valid_fields [OF valid] obtain u m pw where
    f: "username (body req) = Some u" "email (body req) = Some m" "password (body req) = Some pw"
    by blast
  from f(3) fresh up down have p: "post e req w =
      (\<lparr>status = 400, body = ValidationErrors [(''email'', email_in_use)]\<rparr>,
       w\<lparr>users := users w @ [(nextId (users w),
                   \<lparr>user.username = username (body req), user.email = email (body req),
                    user.password = bcrypt_digest e pw 10,
                    user.activationToken = projr (generateToken e 16)\<rparr>)],
                 trace := trace w @ [BcryptHash pw 10,
                   SendAccountActivation (email (body req)) (projr (generateToken e 16))]\<rparr>)"
    by (simp add: post_valid [OF valid] save_cases Let_def)
  have dup: "fst (save e2 (body req) w2) = Inl UniqueConstraintError \<and>
        fst (post e2 req w2) = fst (post e req w)"
    if "\<not> store_down e2" "emailStored (email (body req)) w2" for e2 w2
    using that f p by (simp add: post_valid [OF valid] save_cases Let_def)
  from f p dup show ?thesis
    by (simp add: Let_def toString_def emailStored_def generateToken_16)
qed

theorem dispatch_failure_witness:
  "post (fair\<lparr>mail_down := True\<rparr>) \<lparr>body = validUser, acceptLanguage = None\<rparr> nothing =
     (\<lparr>status = 400, body = ValidationErrors [(''email'', email_in_use)]\<rparr>,
      \<lparr>users = [(1, \<lparr>user.username = Some ''user1'', user.email = Some ''user1@mail.com'',
                     user.password = ''$2b$10$N9qo8uLOickgx2ZMRZoMyeIjZAgcfl7p92ldGxad68LJZdL17lhWy'',
                     user.activationToken = ''a7a7a7a7a7a7a7a7''\<rparr>)],
       trace = [BcryptHash ''passworD987654'' 10,
                SendAccountActivation (Some ''user1@mail.com'') ''a7a7a7a7a7a7a7a7'']\<rparr>)"
proof -
  have token: "generateToken (fair\<lparr>mail_down := True\<rparr>) 16 = Inr ''a7a7a7a7a7a7a7a7''"
    by (rule fair_token) (rule fair_entropy)
  show ?thesis
    using dispatch_failure
      [of "\<lparr>body = validUser, acceptLanguage = None\<rparr>" nothing "fair\<lparr>mail_down := True\<rparr>"]
    by (simp add: validUser_valid nothing_fresh fair_fields validUser_fields toString_def
        token Let_def)
      (simp add: nothing_def nextId_Nil)
qed

subsection \<open>Where the router stops short\<close>

lemma registered_world:
  "registered =
     \<lparr>users = [(1, \<lparr>user.username = Some ''user1'', user.email = Some ''user1@mail.com'',
                     user.password = ''$2b$10$N9qo8uLOickgx2ZMRZoMyeIjZAgcfl7p92ldGxad68LJZdL17lhWy'',
                     user.activationToken = ''a7a7a7a7a7a7a7a7''\<rparr>)],
       trace = [BcryptHash ''passworD987654'' 10,
                SendAccountActivation (Some ''user1@mail.com'') ''a7a7a7a7a7a7a7a7'']\<rparr>"
  by (simp add: registered_def post_valid validUser_valid save_cases validUser_fields
      nothing_fresh fair_fields fair_token [OF fair_entropy(1)] Let_def)
    (simp add: nothing_def nextId_Nil)

lemma nullUsername_expected:
  "expectedErrors \<lparr>body = nullUsername, acceptLanguage = l\<rparr> = [(''username'', username_null)]"
  by code_simp

lemma post_nullUsername:
  "post e \<lparr>body = nullUsername, acceptLanguage = l\<rparr> w =
     (\<lparr>status = 400, body = ValidationErrors [(''username'', username_null)]\<rparr>, w)"
  by (simp add: post_def Let_def validationResult_expected nullUsername_expected)

lemma post_header: "post e (req\<lparr>acceptLanguage := l\<rparr>) w = post e req w"
  by (simp add: post_def validationResult_def run_def)

text \<open>
  C2, at the request where the router departs from it. The email of the request is stored
  and passes the rules of its field, the username is \<^verbatim>\<open>null\<close>. The router answers 400
  with the username alone among the validation errors and leaves the world as it was: the
  store is not asked for the email, which is looked for by \<^verbatim>\<open>User.create\<close> only, once
  all three fields have passed. With the username of the valid user in its place the same
  email is reported as in use.
\<close>

theorem duplicate_unreported:
  "emailStored (email nullUsername) registered \<and>
   messages email_chain (email nullUsername) = [] \<and>
   post e \<lparr>body = nullUsername, acceptLanguage = None\<rparr> registered =
     (\<lparr>status = 400, body = ValidationErrors [(''username'', username_null)]\<rparr>, registered) \<and>
   fst (post e \<lparr>body = validUser, acceptLanguage = None\<rparr> registered) =
     \<lparr>status = 400, body = ValidationErrors [(''email'', email_in_use)]\<rparr>"
proof (intro conjI)
  show "fst (post e \<lparr>body = validUser, acceptLanguage = None\<rparr> registered) =
     \<lparr>status = 400, body = ValidationErrors [(''email'', email_in_use)]\<rparr>"
    by (simp add: post_valid validUser_valid save_cases validUser_fields Let_def
        registered_world emailStored_def)
  show "emailStored (email nullUsername) registered"
    by (simp add: registered_world emailStored_def nullUsername_def)
  show "messages email_chain (email nullUsername) = []"
    by code_simp
  show "post e \<lparr>body = nullUsername, acceptLanguage = None\<rparr> registered =
     (\<lparr>status = 400, body = ValidationErrors [(''username'', username_null)]\<rparr>, registered)"
    by (rule post_nullUsername)
qed

text \<open>
  C8, at the request where the router departs from it. The handler never reads the
  \<^verbatim>\<open>Accept-Language\<close> header, so the answer is the same under every value of it; for
  the request without a username sent with the value \<^verbatim>\<open>es\<close> the message is the English
  one, not the Spanish one the test suite expects.
\<close>

theorem accept_language_ignored:
  "post e (req\<lparr>acceptLanguage := l\<rparr>) w = post e req w \<and>
   post e \<lparr>body = nullUsername, acceptLanguage = Some ''es''\<rparr> w =
     (\<lparr>status = 400, body = ValidationErrors [(''username'', ''Username cannot be null'')]\<rparr>, w) \<and>
   ''Username cannot be null'' \<noteq> ''Nombre de usuario no puede ser nulo''"
  by (simp add: post_header post_nullUsername username_null_def)

end
